theory Spec2Isabelle
  imports
    Main
    "HOL-Library.Word"
    "HOL-Library.Multiset"
    "HOL-Library.Char_ord"
    "HOL-Library.List_Lexorder"
begin

section \<open>The readable ledger view of package visor (src/visor/readable.go)\<close>

text \<open>
  The file converts ledger entities (unspent outputs, transactions) into their readable
  form and reconciles the head, outgoing and incoming output collections. Every function
  below is a translation of the Go function of the same name. Go's \<open>(value, error)\<close>
  results are values of \<open>error + 'a\<close>, with \<open>Inl\<close> for a non-nil error; \<open>uint64\<close> is
  \<open>64 word\<close>, whose addition wraps as Go's does; a slice is a list.
\<close>

subsection \<open>Data model\<close>

type_synonym uint8 = "8 word"
type_synonym uint32 = "32 word"
type_synonym uint64 = "64 word"

text \<open>
  \<open>cipher.SHA256\<close> is a 32-byte array; the composite literal \<open>cipher.SHA256{}\<close> of the
  source is its zero value, the word \<open>0\<close>.
\<close>

type_synonym cipher_SHA256 = "256 word"

text \<open>
  Error values. \<open>coin.ErrAddEarnedCoinHoursAdditionOverflow\<close> is the sentinel the source
  compares against; \<open>ErrUint64AddOverflow\<close> is the error of \<open>coin.AddUint64\<close>; every
  other error (made by \<open>errors.New\<close> or by a codec) is \<open>Err\<close> with its message.
\<close>

datatype error =
    ErrAddEarnedCoinHoursAdditionOverflow
  | ErrUint64AddOverflow
  | Err string

text \<open>
  The unspent output of package coin, as far as this file reads it: \<open>t.Head.Time\<close>,
  \<open>t.Head.BkSeq\<close>, \<open>t.Body.SrcTransaction\<close>, \<open>t.Body.Address\<close>, \<open>t.Body.Coins\<close>,
  \<open>t.Body.Hours\<close>. The address type \<open>cipher.Address\<close> is only handed to the address
  codec, so it is a type parameter.
\<close>

record UxHead =
  ux_Time :: uint64
  ux_BkSeq :: uint64

record 'addr UxBody =
  ux_SrcTransaction :: cipher_SHA256
  ux_Address :: 'addr
  ux_Coins :: uint64
  ux_Hours :: uint64

record 'addr UxOut =
  Head :: UxHead
  Body :: "'addr UxBody"

record 'addr TransactionOutput =
  to_Address :: 'addr
  to_Coins :: uint64
  to_Hours :: uint64

text \<open>\<open>coin.Transaction\<close>; the signature type \<open>cipher.Sig\<close> is only hex-encoded.\<close>

record ('addr, 'sig) coin_Transaction =
  tx_Length :: uint32
  tx_Type :: uint8
  tx_InnerHash :: cipher_SHA256
  tx_Sigs :: "'sig list"
  tx_In :: "cipher_SHA256 list"
  tx_Out :: "'addr TransactionOutput list"

record TransactionStatus =
  Confirmed :: bool
  Unconfirmed :: bool
  Height :: uint64
  BlockSeq :: uint64

record ('addr, 'sig) Transaction =
  Txn :: "('addr, 'sig) coin_Transaction"
  Status :: TransactionStatus
  txn_Time :: uint64

record ReadableTransactionOutput =
  rto_Hash :: string
  rto_Address :: string
  rto_Coins :: string
  rto_Hours :: uint64

record ReadableTransactionInput =
  rti_Hash :: string
  rti_Address :: string
  rti_Coins :: string
  rti_Hours :: uint64
  rti_CalculatedHours :: uint64

record ReadableOutput =
  Hash :: string
  Time :: uint64
  BkSeq :: uint64
  SourceTransaction :: string
  Address :: string
  Coins :: string
  Hours :: uint64
  CalculatedHours :: uint64

type_synonym ReadableOutputs = "ReadableOutput list"

record ReadableOutputSet =
  HeadOutputs :: ReadableOutputs
  OutgoingOutputs :: ReadableOutputs
  IncomingOutputs :: ReadableOutputs

record ReadableTransaction =
  rt_Timestamp :: uint64
  rt_Length :: uint32
  rt_Type :: uint8
  rt_Hash :: string
  rt_InnerHash :: string
  rt_Sigs :: "string list"
  rt_In :: "string list"
  rt_Out :: "ReadableTransactionOutput list"

record Balance =
  bal_Coins :: uint64
  bal_Hours :: uint64

subsection \<open>The collaborators\<close>

text \<open>
  The functions of packages droplet, cipher and coin that the file calls are not part of
  it. The readers only pass values through them, so they are parameters of the model:
  the amount codec, the address and hash codecs, the content hashes and the coin-hours
  accrual of an output as of a time.
\<close>

record ('addr, 'sig) collaborators =
  droplet_ToString :: "uint64 \<Rightarrow> error + string"
  droplet_FromString :: "string \<Rightarrow> error + uint64"
  Address_String :: "'addr \<Rightarrow> string"
  cipher_DecodeBase58Address :: "string \<Rightarrow> error + 'addr"
  SHA256_Hex :: "cipher_SHA256 \<Rightarrow> string"
  cipher_SHA256FromHex :: "string \<Rightarrow> error + cipher_SHA256"
  Sig_Hex :: "'sig \<Rightarrow> string"
  UxOut_Hash :: "'addr UxOut \<Rightarrow> cipher_SHA256"
  UxOut_CoinHours :: "'addr UxOut \<Rightarrow> uint64 \<Rightarrow> error + uint64"
  TransactionOutput_UxID :: "'addr TransactionOutput \<Rightarrow> cipher_SHA256 \<Rightarrow> cipher_SHA256"
  Transaction_Hash :: "('addr, 'sig) coin_Transaction \<Rightarrow> cipher_SHA256"

subsection \<open>The output set reconciler\<close>

text \<open>
  \<open>SpendableOutputs\<close>: the map \<open>spending\<close> of type \<open>map[string]struct{}\<close> is a map to
  \<open>unit\<close>; the first loop stores every outgoing hash, the second appends the head outputs
  whose hash is not a key.
\<close>

fun spending_insert :: "(string \<rightharpoonup> unit) \<Rightarrow> ReadableOutputs \<Rightarrow> (string \<rightharpoonup> unit)" where
  "spending_insert spending [] = spending"
| "spending_insert spending (u # us) = spending_insert (spending(Hash u \<mapsto> ())) us"

fun spendable_filter :: "(string \<rightharpoonup> unit) \<Rightarrow> ReadableOutputs \<Rightarrow> ReadableOutputs \<Rightarrow> ReadableOutputs" where
  "spendable_filter spending [] outs = outs"
| "spendable_filter spending (h # hs) outs =
     (case spending (Hash h) of
        None \<Rightarrow> spendable_filter spending hs (outs @ [h])
      | Some _ \<Rightarrow> spendable_filter spending hs outs)"

definition SpendableOutputs :: "ReadableOutputSet \<Rightarrow> ReadableOutputs" where
  "SpendableOutputs os =
     (if length (OutgoingOutputs os) = 0 then HeadOutputs os
      else let spending = spending_insert Map.empty (OutgoingOutputs os)
           in spendable_filter spending (HeadOutputs os) [])"

definition ExpectedOutputs :: "ReadableOutputSet \<Rightarrow> ReadableOutputs" where
  "ExpectedOutputs os = SpendableOutputs os @ IncomingOutputs os"

subsection \<open>Transaction status\<close>

text \<open>
  A function that can panic has an outcome: the panic with its message, or the returned
  value.
\<close>

datatype 'a outcome = Panics string | Returns 'a

text \<open>
  Modelled from the spec: the package logger is not in readable.go. The specification
  says that constructing a confirmed status with height 0 must abort the program and not
  return an error value: \<open>logger.Panic\<close> is a panic with its message, and the call does
  not return.
\<close>

definition logger_Panic :: "string \<Rightarrow> 'a outcome" where
  "logger_Panic msg = Panics msg"

definition NewUnconfirmedTransactionStatus :: TransactionStatus where
  "NewUnconfirmedTransactionStatus =
     \<lparr>Confirmed = False, Unconfirmed = True, Height = 0, BlockSeq = 0\<rparr>"

definition NewConfirmedTransactionStatus :: "uint64 \<Rightarrow> uint64 \<Rightarrow> TransactionStatus outcome" where
  "NewConfirmedTransactionStatus height blockSeq =
     (if height = 0 then logger_Panic ''Invalid confirmed transaction height''
      else Returns \<lparr>Confirmed = True, Unconfirmed = False, Height = height,
                     BlockSeq = blockSeq\<rparr>)"

subsection \<open>Entity readers\<close>

definition NewReadableTransactionOutput ::
  "('addr, 'sig) collaborators \<Rightarrow> 'addr TransactionOutput \<Rightarrow> cipher_SHA256
     \<Rightarrow> error + ReadableTransactionOutput" where
  "NewReadableTransactionOutput c t txid =
     (case droplet_ToString c (to_Coins t) of
        Inl err \<Rightarrow> Inl err
      | Inr coinStr \<Rightarrow>
          Inr \<lparr>rto_Hash = SHA256_Hex c (TransactionOutput_UxID c t txid),
               rto_Address = Address_String c (to_Address t),
               rto_Coins = coinStr,
               rto_Hours = to_Hours t\<rparr>)"

text \<open>
  \<open>NewReadableTransactionInput\<close>: any error of \<open>ux.CoinHours\<close> is ignored and the
  calculated hours are set to 0. The two logging calls write to the log only and are not
  part of the returned value.
\<close>

definition NewReadableTransactionInput ::
  "('addr, 'sig) collaborators \<Rightarrow> 'addr UxOut \<Rightarrow> uint64 \<Rightarrow> error + ReadableTransactionInput" where
  "NewReadableTransactionInput c ux calculateHoursTime =
     (case droplet_ToString c (ux_Coins (Body ux)) of
        Inl err \<Rightarrow> Inl err
      | Inr coinVal \<Rightarrow>
          let calculatedHours =
                (case UxOut_CoinHours c ux calculateHoursTime of
                   Inl err \<Rightarrow> 0
                 | Inr hours \<Rightarrow> hours)
          in Inr \<lparr>rti_Hash = SHA256_Hex c (UxOut_Hash c ux),
                  rti_Address = Address_String c (ux_Address (Body ux)),
                  rti_Coins = coinVal,
                  rti_Hours = ux_Hours (Body ux),
                  rti_CalculatedHours = calculatedHours\<rparr>)"

text \<open>
  \<open>NewReadableOutput\<close>: the \<open>switch err\<close> lets \<open>nil\<close> pass, turns the sentinel
  \<open>coin.ErrAddEarnedCoinHoursAdditionOverflow\<close> into 0 hours and returns every other
  error. \<open>readableOutputOf\<close> is the struct literal of the final \<open>return\<close>, with the
  encoded coins and the calculated hours it is given.
\<close>

definition readableOutputOf ::
  "('addr, 'sig) collaborators \<Rightarrow> 'addr UxOut \<Rightarrow> string \<Rightarrow> uint64 \<Rightarrow> ReadableOutput" where
  "readableOutputOf c t coinStr calculatedHours =
     \<lparr>Hash = SHA256_Hex c (UxOut_Hash c t),
      Time = ux_Time (Head t),
      BkSeq = ux_BkSeq (Head t),
      SourceTransaction = SHA256_Hex c (ux_SrcTransaction (Body t)),
      Address = Address_String c (ux_Address (Body t)),
      Coins = coinStr,
      Hours = ux_Hours (Body t),
      CalculatedHours = calculatedHours\<rparr>"

definition NewReadableOutput ::
  "('addr, 'sig) collaborators \<Rightarrow> uint64 \<Rightarrow> 'addr UxOut \<Rightarrow> error + ReadableOutput" where
  "NewReadableOutput c headTime t =
     (case droplet_ToString c (ux_Coins (Body t)) of
        Inl err \<Rightarrow> Inl err
      | Inr coinStr \<Rightarrow>
          (case UxOut_CoinHours c t headTime of
             Inr calculatedHours \<Rightarrow> Inr (readableOutputOf c t coinStr calculatedHours)
           | Inl err \<Rightarrow>
               if err = ErrAddEarnedCoinHoursAdditionOverflow
               then Inr (readableOutputOf c t coinStr 0)
               else Inl err))"








subsection \<open>Balance and reverse conversion\<close>

text \<open>
  Modelled from the spec: \<open>coin.AddUint64\<close> is not in readable.go. The specification
  says that summation must detect and fail on 64-bit addition overflow rather than
  wrapping: the sum is returned when it fits in 64 bits, an error otherwise.
\<close>

definition coin_AddUint64 :: "uint64 \<Rightarrow> uint64 \<Rightarrow> error + uint64" where
  "coin_AddUint64 a b =
     (if unat a + unat b < 2 ^ 64 then Inr (a + b) else Inl ErrUint64AddOverflow)"

fun Balance_loop ::
  "('addr, 'sig) collaborators \<Rightarrow> Balance \<Rightarrow> ReadableOutputs \<Rightarrow> error + Balance" where
  "Balance_loop c bal [] = Inr bal"
| "Balance_loop c bal (out # ros) =
     (case droplet_FromString c (Coins out) of
        Inl err \<Rightarrow> Inl err
      | Inr coins \<Rightarrow>
          (case coin_AddUint64 (bal_Coins bal) coins of
             Inl err \<Rightarrow> Inl err
           | Inr sumCoins \<Rightarrow>
               (case coin_AddUint64 (bal_Hours bal) (CalculatedHours out) of
                  Inl err \<Rightarrow> Inl err
                | Inr sumHours \<Rightarrow>
                    Balance_loop c \<lparr>bal_Coins = sumCoins, bal_Hours = sumHours\<rparr> ros)))"

definition Balance :: "('addr, 'sig) collaborators \<Rightarrow> ReadableOutputs \<Rightarrow> error + Balance" where
  "Balance c ros = Balance_loop c \<lparr>bal_Coins = 0, bal_Hours = 0\<rparr> ros"




subsection \<open>Readable transactions\<close>

fun NewReadableTransaction_outs ::
  "('addr, 'sig) collaborators \<Rightarrow> cipher_SHA256 \<Rightarrow> ReadableTransactionOutput list
     \<Rightarrow> 'addr TransactionOutput list \<Rightarrow> error + ReadableTransactionOutput list" where
  "NewReadableTransaction_outs c txid out [] = Inr out"
| "NewReadableTransaction_outs c txid out (t # ts) =
     (case NewReadableTransactionOutput c t txid of
        Inl err \<Rightarrow> Inl err
      | Inr ro \<Rightarrow> NewReadableTransaction_outs c txid (out @ [ro]) ts)"

text \<open>
  Modelled from the spec: the method \<open>TxIDHex\<close> of \<open>coin.Transaction\<close> is not in
  readable.go. The specification says that a transaction's id is the content hash of its
  binary form and that hashes are written as hexadecimal strings. The method is called on
  \<open>t.Txn\<close>, the coin transaction without its status, so the exception the specification
  makes for the genesis transaction cannot be made inside it: it is the hex form of the
  content hash.
\<close>

definition Transaction_TxIDHex ::
  "('addr, 'sig) collaborators \<Rightarrow> ('addr, 'sig) coin_Transaction \<Rightarrow> string" where
  "Transaction_TxIDHex c txn = SHA256_Hex c (Transaction_Hash c txn)"

text \<open>
  \<open>NewReadableTransaction\<close>: \<open>txid\<close> starts as \<open>cipher.SHA256{}\<close> and becomes
  \<open>t.Txn.Hash()\<close> unless the status is confirmed with block sequence 0; it is handed to
  \<open>NewReadableTransactionOutput\<close>. The field \<open>Hash\<close> of the result is
  \<open>t.Txn.TxIDHex()\<close>.
\<close>

definition NewReadableTransaction ::
  "('addr, 'sig) collaborators \<Rightarrow> ('addr, 'sig) Transaction \<Rightarrow> error + ReadableTransaction" where
  "NewReadableTransaction c t =
     (if BlockSeq (Status t) \<noteq> 0 \<and> Confirmed (Status t) \<and> length (tx_In (Txn t)) = 0
      then Inl (Err ''NewReadableTransaction: Confirmed transaction Status.BlockSeq != 0 but Txn.In is empty'')
      else
        let txid = (if BlockSeq (Status t) \<noteq> 0 \<or> \<not> Confirmed (Status t)
                    then Transaction_Hash c (Txn t) else 0);
            sigs = map (Sig_Hex c) (tx_Sigs (Txn t));
            ins = map (SHA256_Hex c) (tx_In (Txn t))
        in case NewReadableTransaction_outs c txid [] (tx_Out (Txn t)) of
             Inl err \<Rightarrow> Inl err
           | Inr out \<Rightarrow>
               Inr \<lparr>rt_Timestamp = txn_Time t,
                    rt_Length = tx_Length (Txn t),
                    rt_Type = tx_Type (Txn t),
                    rt_Hash = Transaction_TxIDHex c (Txn t),
                    rt_InnerHash = SHA256_Hex c (tx_InnerHash (Txn t)),
                    rt_Sigs = sigs,
                    rt_In = ins,
                    rt_Out = out\<rparr>)"

subsection \<open>Example data\<close>

definition mkOutput :: "string \<Rightarrow> uint64 \<Rightarrow> ReadableOutput" where
  "mkOutput h t =
     \<lparr>Hash = h, Time = t, BkSeq = 1, SourceTransaction = ''00'', Address = ''addr'',
      Coins = ''1.000000'', Hours = 0, CalculatedHours = 0\<rparr>"

text \<open>The example of the specification: head A, B, C, outgoing B, incoming D.\<close>

definition exampleSet :: ReadableOutputSet where
  "exampleSet =
     \<lparr>HeadOutputs = [mkOutput ''A'' 100, mkOutput ''B'' 100, mkOutput ''C'' 50],
      OutgoingOutputs = [mkOutput ''B'' 100],
      IncomingOutputs = [mkOutput ''D'' 200]\<rparr>"

definition headOnlySet :: ReadableOutputSet where
  "headOnlySet =
     \<lparr>HeadOutputs = [mkOutput ''A'' 100, mkOutput ''B'' 100],
      OutgoingOutputs = [],
      IncomingOutputs = [mkOutput ''D'' 200]\<rparr>"

subsection \<open>Example collaborators\<close>

text \<open>
  A concrete set of collaborators, used to evaluate the readers on examples: words are
  written as fixed-width digit strings (hexadecimal for hashes, addresses and
  signatures, decimal for amounts), the amount codec refuses values above the largest
  signed 64-bit integer, the address decoder refuses an address whose leading byte, its
  version, is not 0, and coin hours accrue per whole coin and hour, with an overflow
  check on the multiplication and the known one on the addition.
\<close>

definition digits16 :: string where
  "digits16 = ''0123456789abcdef''"

fun to_radix :: "nat \<Rightarrow> nat \<Rightarrow> nat \<Rightarrow> string" where
  "to_radix b 0 n = []"
| "to_radix b (Suc k) n = to_radix b k (n div b) @ [digits16 ! (n mod b)]"

fun index_of :: "char \<Rightarrow> string \<Rightarrow> nat option" where
  "index_of ch [] = None"
| "index_of ch (d # ds) = (if ch = d then Some 0 else map_option Suc (index_of ch ds))"

fun from_radix :: "nat \<Rightarrow> nat \<Rightarrow> string \<Rightarrow> nat option" where
  "from_radix b acc [] = Some acc"
| "from_radix b acc (ch # s) =
     (case index_of ch digits16 of
        None \<Rightarrow> None
      | Some d \<Rightarrow> if d < b then from_radix b (acc * b + d) s else None)"

definition encodeWord :: "nat \<Rightarrow> nat \<Rightarrow> 'a::len word \<Rightarrow> string" where
  "encodeWord b k w = to_radix b k (unat w)"

definition decodeWord :: "nat \<Rightarrow> nat \<Rightarrow> string \<Rightarrow> error + 'a::len word" where
  "decodeWord b k s =
     (if length s \<noteq> k then Inl (Err ''invalid length'')
      else case from_radix b 0 s of
             None \<Rightarrow> Inl (Err ''invalid digit'')
           | Some n \<Rightarrow> Inr (of_nat n))"

definition exampleCoinHours :: "'addr UxOut \<Rightarrow> uint64 \<Rightarrow> error + uint64" where
  "exampleCoinHours ux t =
     (if t < ux_Time (Head ux) then Inr (ux_Hours (Body ux))
      else
        let seconds = unat (t - ux_Time (Head ux));
            wholeCoins = unat (ux_Coins (Body ux)) div 1000000
        in if 2 ^ 64 \<le> wholeCoins * seconds
           then Inl (Err ''coin hours multiplication overflow'')
           else
             let earned = wholeCoins * seconds div 3600
             in if 2 ^ 64 \<le> unat (ux_Hours (Body ux)) + earned
                then Inl ErrAddEarnedCoinHoursAdditionOverflow
                else Inr (ux_Hours (Body ux) + of_nat earned))"

definition exampleCollaborators :: "(160 word, 520 word) collaborators" where
  "exampleCollaborators =
     \<lparr>droplet_ToString =
        (\<lambda>n. if n < 2 ^ 63 then Inr (encodeWord 10 19 n)
              else Inl (Err ''value is too large'')),
      droplet_FromString = decodeWord 10 19,
      Address_String = encodeWord 16 40,
      cipher_DecodeBase58Address =
        (\<lambda>s. case decodeWord 16 40 s of
                Inl err \<Rightarrow> Inl err
              | Inr addr \<Rightarrow>
                  if addr < 2 ^ 152 then Inr addr else Inl (Err ''Invalid version'')),
      SHA256_Hex = encodeWord 16 64,
      cipher_SHA256FromHex = decodeWord 16 64,
      Sig_Hex = encodeWord 16 130,
      UxOut_Hash =
        (\<lambda>ux. ux_SrcTransaction (Body ux) + ucast (ux_Address (Body ux))
                + ucast (ux_Coins (Body ux)) + ucast (ux_Hours (Body ux)) + 1),
      UxOut_CoinHours = exampleCoinHours,
      TransactionOutput_UxID =
        (\<lambda>t txid. txid + ucast (to_Address t) + ucast (to_Coins t) + ucast (to_Hours t) + 1),
      Transaction_Hash = (\<lambda>txn. tx_InnerHash txn + ucast (tx_Length txn) + 1)\<rparr>"

definition mkUx :: "uint64 \<Rightarrow> uint64 \<Rightarrow> uint64 \<Rightarrow> 160 word UxOut" where
  "mkUx t coins hours =
     \<lparr>Head = \<lparr>ux_Time = t, ux_BkSeq = 1\<rparr>,
      Body = \<lparr>ux_SrcTransaction = 7, ux_Address = 5, ux_Coins = coins, ux_Hours = hours\<rparr>\<rparr>"

text \<open>An output whose declared hours leave no room for the hours earned in one hour.\<close>

definition overflowUx :: "160 word UxOut" where
  "overflowUx = mkUx 0 1000000 18446744073709551615"

text \<open>An output whose accrual overflows in the multiplication already.\<close>

definition manyCoinsUx :: "160 word UxOut" where
  "manyCoinsUx = mkUx 0 (2 ^ 62) 0"

text \<open>An output whose coin amount the amount codec refuses.\<close>

definition tooLargeUx :: "160 word UxOut" where
  "tooLargeUx = mkUx 0 (2 ^ 63) 18446744073709551615"

text \<open>A transaction without inputs and with one output, as the genesis transaction is.\<close>

definition genesisTxn :: "(160 word, 520 word) Transaction" where
  "genesisTxn =
     \<lparr>Txn = \<lparr>tx_Length = 183, tx_Type = 0, tx_InnerHash = 41, tx_Sigs = [], tx_In = [],
              tx_Out = [\<lparr>to_Address = 5, to_Coins = 1000000, to_Hours = 0\<rparr>]\<rparr>,
      Status = \<lparr>Confirmed = True, Unconfirmed = False, Height = 1, BlockSeq = 0\<rparr>,
      txn_Time = 0\<rparr>"

text \<open>The same transaction while it is still in the unconfirmed pool.\<close>

definition pendingTxn :: "(160 word, 520 word) Transaction" where
  "pendingTxn =
     genesisTxn\<lparr>Status := \<lparr>Confirmed = False, Unconfirmed = True, Height = 0, BlockSeq = 0\<rparr>\<rparr>"

definition genesisReadable :: ReadableTransaction where
  "genesisReadable =
     \<lparr>rt_Timestamp = 0, rt_Length = 183, rt_Type = 0,
      rt_Hash = ''00000000000000000000000000000000000000000000000000000000000000e1'',
      rt_InnerHash = ''0000000000000000000000000000000000000000000000000000000000000029'',
      rt_Sigs = [], rt_In = [],
      rt_Out = [\<lparr>rto_Hash = ''00000000000000000000000000000000000000000000000000000000000f4246'',
                 rto_Address = ''0000000000000000000000000000000000000005'',
                 rto_Coins = ''0000000000001000000'', rto_Hours = 0\<rparr>]\<rparr>"

definition pendingReadable :: ReadableTransaction where
  "pendingReadable =
     \<lparr>rt_Timestamp = 0, rt_Length = 183, rt_Type = 0,
      rt_Hash = ''00000000000000000000000000000000000000000000000000000000000000e1'',
      rt_InnerHash = ''0000000000000000000000000000000000000000000000000000000000000029'',
      rt_Sigs = [], rt_In = [],
      rt_Out = [\<lparr>rto_Hash = ''00000000000000000000000000000000000000000000000000000000000f4327'',
                 rto_Address = ''0000000000000000000000000000000000000005'',
                 rto_Coins = ''0000000000001000000'', rto_Hours = 0\<rparr>]\<rparr>"

definition balanceOutput :: "string \<Rightarrow> uint64 \<Rightarrow> ReadableOutput" where
  "balanceOutput coins hours = (mkOutput ''A'' 100)\<lparr>Coins := coins, CalculatedHours := hours\<rparr>"

text \<open>
  Two outputs whose calculated hours add up to \<open>2 ^ 64\<close>, followed by one whose amount is
  not a number; and two outputs whose sums fit.
\<close>

definition overflowOutputs :: ReadableOutputs where
  "overflowOutputs =
     [balanceOutput ''0000000000001000000'' (2 ^ 63),
      balanceOutput ''0000000000001000000'' (2 ^ 63),
      balanceOutput ''not a number'' 0]"

definition smallOutputs :: ReadableOutputs where
  "smallOutputs =
     [balanceOutput ''0000000000001000000'' 10,
      balanceOutput ''0000000000002000000'' 20]"















subsection \<open>Spendable and expected outputs\<close>

lemma dom_spending_insert:
  "dom (spending_insert spending us) = dom spending \<union> Hash ` set us"
  by (induction us arbitrary: spending) auto

lemma spendable_filter_eq:
  "spendable_filter spending hs outs = outs @ filter (\<lambda>h. Hash h \<notin> dom spending) hs"
  by (induction hs arbitrary: outs) (auto split: option.splits)

lemma SpendableOutputs_filter:
  "SpendableOutputs os =
     filter (\<lambda>h. Hash h \<notin> Hash ` set (OutgoingOutputs os)) (HeadOutputs os)"
  by (simp add: SpendableOutputs_def spendable_filter_eq dom_spending_insert)

text \<open>
  C1. \<open>SpendableOutputs\<close> returns exactly the head outputs whose hash is not the hash of
  an outgoing output, in the order they have in the head collection; with no outgoing
  output it returns the head collection as it is.
\<close>

theorem SpendableOutputs_head_minus_outgoing:
  "SpendableOutputs os =
     filter (\<lambda>h. Hash h \<notin> Hash ` set (OutgoingOutputs os)) (HeadOutputs os)
   \<and> (OutgoingOutputs os = [] \<longrightarrow> SpendableOutputs os = HeadOutputs os)"
  by (simp add: SpendableOutputs_filter)

theorem SpendableOutputs_head_minus_outgoing_witness:
  "SpendableOutputs exampleSet = [mkOutput ''A'' 100, mkOutput ''C'' 50]
   \<and> OutgoingOutputs headOnlySet = []
   \<and> SpendableOutputs headOnlySet = [mkOutput ''A'' 100, mkOutput ''B'' 100]"
  using SpendableOutputs_head_minus_outgoing [of exampleSet]
    SpendableOutputs_head_minus_outgoing [of headOnlySet]
  by (simp add: exampleSet_def headOnlySet_def mkOutput_def)

text \<open>
  C7. \<open>ExpectedOutputs\<close> is the spendable outputs followed by the incoming outputs:
  every spendable output in its place, then every incoming output in its place, nothing
  dropped, so the lengths add up.
\<close>

theorem ExpectedOutputs_spendable_then_incoming:
  "ExpectedOutputs os = SpendableOutputs os @ IncomingOutputs os
   \<and> ExpectedOutputs os =
       filter (\<lambda>h. Hash h \<notin> Hash ` set (OutgoingOutputs os)) (HeadOutputs os)
         @ IncomingOutputs os
   \<and> length (ExpectedOutputs os)
       = length (SpendableOutputs os) + length (IncomingOutputs os)"
  by (simp add: ExpectedOutputs_def SpendableOutputs_filter)

theorem ExpectedOutputs_spendable_then_incoming_witness:
  "ExpectedOutputs exampleSet
     = [mkOutput ''A'' 100, mkOutput ''C'' 50, mkOutput ''D'' 200]
   \<and> ExpectedOutputs \<lparr>HeadOutputs = [mkOutput ''A'' 100], OutgoingOutputs = [],
        IncomingOutputs = [mkOutput ''A'' 100, mkOutput ''A'' 100]\<rparr>
     = [mkOutput ''A'' 100, mkOutput ''A'' 100, mkOutput ''A'' 100]"
  using ExpectedOutputs_spendable_then_incoming [of exampleSet]
    ExpectedOutputs_spendable_then_incoming
      [of "\<lparr>HeadOutputs = [mkOutput ''A'' 100], OutgoingOutputs = [],
            IncomingOutputs = [mkOutput ''A'' 100, mkOutput ''A'' 100]\<rparr>"]
  by (simp add: exampleSet_def mkOutput_def SpendableOutputs_def)

subsection \<open>The example codec decodes what it encodes\<close>







lemma to_radix_numeral:
  "to_radix b (numeral k) n = to_radix b (pred_numeral k) (n div b) @ [digits16 ! (n mod b)]"
  by (simp add: numeral_eq_Suc)

lemma exampleCollaborators_sel:
  "droplet_ToString exampleCollaborators =
     (\<lambda>n. if n < 2 ^ 63 then Inr (encodeWord 10 19 n) else Inl (Err ''value is too large''))"
  "droplet_FromString exampleCollaborators = decodeWord 10 19"
  "Address_String exampleCollaborators = encodeWord 16 40"
  "cipher_DecodeBase58Address exampleCollaborators =
     (\<lambda>s. case decodeWord 16 40 s of
             Inl err \<Rightarrow> Inl err
           | Inr addr \<Rightarrow> if addr < 2 ^ 152 then Inr addr else Inl (Err ''Invalid version''))"
  "SHA256_Hex exampleCollaborators = encodeWord 16 64"
  "cipher_SHA256FromHex exampleCollaborators = decodeWord 16 64"
  "Sig_Hex exampleCollaborators = encodeWord 16 130"
  "UxOut_Hash exampleCollaborators =
     (\<lambda>ux. ux_SrcTransaction (Body ux) + ucast (ux_Address (Body ux))
                + ucast (ux_Coins (Body ux)) + ucast (ux_Hours (Body ux)) + 1)"
  "UxOut_CoinHours exampleCollaborators = exampleCoinHours"
  "TransactionOutput_UxID exampleCollaborators =
     (\<lambda>t txid. txid + ucast (to_Address t) + ucast (to_Coins t) + ucast (to_Hours t) + 1)"
  "Transaction_Hash exampleCollaborators = (\<lambda>txn. tx_InnerHash txn + ucast (tx_Length txn) + 1)"
  by (simp_all add: exampleCollaborators_def)

lemmas example_eval =
  exampleCollaborators_sel encodeWord_def decodeWord_def to_radix_numeral digits16_def

lemma example_ToString_overflowUx:
  "droplet_ToString exampleCollaborators (ux_Coins (Body overflowUx)) = Inr ''0000000000001000000''"
  by (simp add: overflowUx_def mkUx_def example_eval)

lemma example_CoinHours_overflowUx:
  "UxOut_CoinHours exampleCollaborators overflowUx 3600 = Inl ErrAddEarnedCoinHoursAdditionOverflow"
  by (simp add: overflowUx_def mkUx_def exampleCollaborators_sel exampleCoinHours_def)

lemma example_ToString_manyCoinsUx:
  "droplet_ToString exampleCollaborators (ux_Coins (Body manyCoinsUx)) = Inr ''4611686018427387904''"
  by (simp add: manyCoinsUx_def mkUx_def example_eval)

lemma example_CoinHours_manyCoinsUx:
  "UxOut_CoinHours exampleCollaborators manyCoinsUx (2 ^ 40) = Inl (Err ''coin hours multiplication overflow'')"
  by (simp add: manyCoinsUx_def mkUx_def exampleCollaborators_sel exampleCoinHours_def)

lemma example_ToString_tooLargeUx:
  "droplet_ToString exampleCollaborators (ux_Coins (Body tooLargeUx)) = Inl (Err ''value is too large'')"
  by (simp add: tooLargeUx_def mkUx_def exampleCollaborators_sel)

subsection \<open>Confirmed status\<close>

text \<open>
  C8. \<open>NewConfirmedTransactionStatus\<close> with height 0 panics: the outcome is the panic, not
  a returned status and not an error value. With a height above 0 it returns the status
  with \<open>Confirmed\<close> true, \<open>Unconfirmed\<close> false and the given height and block sequence.
\<close>

theorem NewConfirmedTransactionStatus_zero_height_panics:
  "NewConfirmedTransactionStatus 0 blockSeq = Panics ''Invalid confirmed transaction height''
   \<and> (0 < height \<longrightarrow>
        NewConfirmedTransactionStatus height blockSeq =
          Returns \<lparr>Confirmed = True, Unconfirmed = False, Height = height,
                    BlockSeq = blockSeq\<rparr>)"
  by (auto simp: NewConfirmedTransactionStatus_def logger_Panic_def)

theorem NewConfirmedTransactionStatus_zero_height_panics_witness:
  "NewConfirmedTransactionStatus 0 7 = Panics ''Invalid confirmed transaction height''
   \<and> (0 :: uint64) < 3
   \<and> NewConfirmedTransactionStatus 3 7 =
        Returns \<lparr>Confirmed = True, Unconfirmed = False, Height = 3, BlockSeq = 7\<rparr>"
  using NewConfirmedTransactionStatus_zero_height_panics [of 7 3] by simp

subsection \<open>The coin-hours overflow policy\<close>

text \<open>
  C6. In \<open>NewReadableOutput\<close> the accrual is computed once the coin amount has been
  encoded. If it then fails with the known earned-coin-hours addition overflow, the
  conversion succeeds with calculated hours 0. If the accrual fails with any other error
  the conversion returns an error, and so it does if the coin-amount encoding fails.
\<close>

theorem NewReadableOutput_overflow_policy:
  "(droplet_ToString c (ux_Coins (Body t)) = Inr coinStr
      \<and> UxOut_CoinHours c t headTime = Inl ErrAddEarnedCoinHoursAdditionOverflow
    \<longrightarrow> (\<exists>r. NewReadableOutput c headTime t = Inr r \<and> CalculatedHours r = 0))
   \<and> (UxOut_CoinHours c t headTime = Inl err \<and> err \<noteq> ErrAddEarnedCoinHoursAdditionOverflow
    \<longrightarrow> (\<exists>e. NewReadableOutput c headTime t = Inl e))
   \<and> (droplet_ToString c (ux_Coins (Body t)) = Inl err
    \<longrightarrow> NewReadableOutput c headTime t = Inl err)"
  by (auto simp: NewReadableOutput_def readableOutputOf_def split: sum.splits)

theorem NewReadableOutput_overflow_policy_witness:
  "droplet_ToString exampleCollaborators (ux_Coins (Body overflowUx)) = Inr ''0000000000001000000''
   \<and> UxOut_CoinHours exampleCollaborators overflowUx 3600 = Inl ErrAddEarnedCoinHoursAdditionOverflow
   \<and> (\<exists>r. NewReadableOutput exampleCollaborators 3600 overflowUx = Inr r \<and> CalculatedHours r = 0)
   \<and> UxOut_CoinHours exampleCollaborators manyCoinsUx (2 ^ 40) = Inl (Err ''coin hours multiplication overflow'')
   \<and> (\<exists>e. NewReadableOutput exampleCollaborators (2 ^ 40) manyCoinsUx = Inl e)
   \<and> droplet_ToString exampleCollaborators (ux_Coins (Body tooLargeUx)) = Inl (Err ''value is too large'')
   \<and> NewReadableOutput exampleCollaborators 3600 tooLargeUx = Inl (Err ''value is too large'')"
  using NewReadableOutput_overflow_policy
      [of exampleCollaborators overflowUx "''0000000000001000000''" 3600 ErrAddEarnedCoinHoursAdditionOverflow]
    NewReadableOutput_overflow_policy
      [of exampleCollaborators manyCoinsUx "[]" "2 ^ 40" "Err ''coin hours multiplication overflow''"]
    NewReadableOutput_overflow_policy
      [of exampleCollaborators tooLargeUx "[]" 3600 "Err ''value is too large''"]
    example_ToString_overflowUx example_CoinHours_overflowUx
    example_CoinHours_manyCoinsUx example_ToString_tooLargeUx
  by blast

text \<open>
  C10. When the coin amount of an output can be encoded, \<open>NewReadableTransactionInput\<close>
  succeeds whatever the accrual does: the calculated hours are the accrued hours, or 0
  when the accrual fails with any error. \<open>NewReadableOutput\<close> is stricter: an accrual
  error other than the known overflow is returned.
\<close>

theorem NewReadableTransactionInput_ignores_accrual_errors:
  assumes "droplet_ToString c (ux_Coins (Body ux)) = Inr coinVal"
  shows "(\<exists>r. NewReadableTransactionInput c ux calculateHoursTime = Inr r
            \<and> rti_CalculatedHours r =
                (case UxOut_CoinHours c ux calculateHoursTime of
                   Inl err \<Rightarrow> 0 | Inr hours \<Rightarrow> hours))
         \<and> (\<forall>err. UxOut_CoinHours c ux calculateHoursTime = Inl err
                \<and> err \<noteq> ErrAddEarnedCoinHoursAdditionOverflow
              \<longrightarrow> NewReadableOutput c calculateHoursTime ux = Inl err)"
  using assms by (simp add: NewReadableTransactionInput_def NewReadableOutput_def)

theorem NewReadableTransactionInput_ignores_accrual_errors_witness:
  "droplet_ToString exampleCollaborators (ux_Coins (Body manyCoinsUx)) = Inr ''4611686018427387904''
   \<and> UxOut_CoinHours exampleCollaborators manyCoinsUx (2 ^ 40) = Inl (Err ''coin hours multiplication overflow'')
   \<and> (\<exists>r. NewReadableTransactionInput exampleCollaborators manyCoinsUx (2 ^ 40) = Inr r
          \<and> rti_CalculatedHours r = 0)
   \<and> NewReadableOutput exampleCollaborators (2 ^ 40) manyCoinsUx = Inl (Err ''coin hours multiplication overflow'')"
  using NewReadableTransactionInput_ignores_accrual_errors
      [of exampleCollaborators manyCoinsUx "''4611686018427387904''" "2 ^ 40"]
    example_ToString_manyCoinsUx example_CoinHours_manyCoinsUx
  by auto

subsection \<open>Readable transactions\<close>

text \<open>
  C9. A transaction whose status is confirmed with a block sequence other than 0 and whose
  input list is empty is refused: \<open>NewReadableTransaction\<close> returns the error and no
  readable transaction.
\<close>

theorem NewReadableTransaction_confirmed_without_inputs:
  assumes "Confirmed (Status t)" and "BlockSeq (Status t) \<noteq> 0" and "tx_In (Txn t) = []"
  shows "NewReadableTransaction c t =
           Inl (Err ''NewReadableTransaction: Confirmed transaction Status.BlockSeq != 0 but Txn.In is empty'')"
  using assms by (simp add: NewReadableTransaction_def)

theorem NewReadableTransaction_confirmed_without_inputs_witness:
  "Confirmed (Status (genesisTxn\<lparr>Status := \<lparr>Confirmed = True, Unconfirmed = False, Height = 1, BlockSeq = 5\<rparr>\<rparr>))
   \<and> BlockSeq (Status (genesisTxn\<lparr>Status := \<lparr>Confirmed = True, Unconfirmed = False, Height = 1, BlockSeq = 5\<rparr>\<rparr>)) \<noteq> 0
   \<and> tx_In (Txn (genesisTxn\<lparr>Status := \<lparr>Confirmed = True, Unconfirmed = False, Height = 1, BlockSeq = 5\<rparr>\<rparr>)) = []
   \<and> NewReadableTransaction exampleCollaborators
        (genesisTxn\<lparr>Status := \<lparr>Confirmed = True, Unconfirmed = False, Height = 1, BlockSeq = 5\<rparr>\<rparr>) =
       Inl (Err ''NewReadableTransaction: Confirmed transaction Status.BlockSeq != 0 but Txn.In is empty'')"
  using NewReadableTransaction_confirmed_without_inputs
    [of "genesisTxn\<lparr>Status := \<lparr>Confirmed = True, Unconfirmed = False, Height = 1, BlockSeq = 5\<rparr>\<rparr>"
        exampleCollaborators]
  by (simp add: genesisTxn_def)

lemma NewReadableTransaction_outs_hashes:
  "NewReadableTransaction_outs c txid out ts = Inr out' \<Longrightarrow>
     map rto_Hash out' =
       map rto_Hash out @ map (\<lambda>t. SHA256_Hex c (TransactionOutput_UxID c t txid)) ts"
  by (induction ts arbitrary: out)
     (auto simp: NewReadableTransactionOutput_def split: sum.splits)

lemma example_hex_225:
  "encodeWord 16 64 (225 :: 256 word) =
     ''00000000000000000000000000000000000000000000000000000000000000e1''"
  by (simp add: encodeWord_def to_radix_numeral digits16_def)

lemma example_hex_0:
  "encodeWord 16 64 (0 :: 256 word) =
     ''0000000000000000000000000000000000000000000000000000000000000000''"
  by (simp add: encodeWord_def to_radix_numeral digits16_def)

lemma example_genesis_txid:
  "map_sum id rt_Hash (NewReadableTransaction exampleCollaborators genesisTxn) =
     Inr (encodeWord 16 64 (225 :: 256 word))"
  by (simp add: NewReadableTransaction_def Transaction_TxIDHex_def genesisTxn_def
        NewReadableTransactionOutput_def exampleCollaborators_sel)

lemma example_genesis_hash:
  "Transaction_Hash exampleCollaborators (Txn genesisTxn) = 225"
  by (simp add: genesisTxn_def exampleCollaborators_sel)

lemma example_genesis_readable_words:
  "NewReadableTransaction exampleCollaborators genesisTxn =
     Inr \<lparr>rt_Timestamp = 0, rt_Length = 183, rt_Type = 0,
          rt_Hash = encodeWord 16 64 (225 :: 256 word),
          rt_InnerHash = encodeWord 16 64 (41 :: 256 word),
          rt_Sigs = [], rt_In = [],
          rt_Out = [\<lparr>rto_Hash = encodeWord 16 64 (1000006 :: 256 word),
                     rto_Address = encodeWord 16 40 (5 :: 160 word),
                     rto_Coins = encodeWord 10 19 (1000000 :: 64 word), rto_Hours = 0\<rparr>]\<rparr>"
  by (simp add: NewReadableTransaction_def Transaction_TxIDHex_def genesisTxn_def
        NewReadableTransactionOutput_def exampleCollaborators_sel)

lemma example_pending_readable_words:
  "NewReadableTransaction exampleCollaborators pendingTxn =
     Inr \<lparr>rt_Timestamp = 0, rt_Length = 183, rt_Type = 0,
          rt_Hash = encodeWord 16 64 (225 :: 256 word),
          rt_InnerHash = encodeWord 16 64 (41 :: 256 word),
          rt_Sigs = [], rt_In = [],
          rt_Out = [\<lparr>rto_Hash = encodeWord 16 64 (1000231 :: 256 word),
                     rto_Address = encodeWord 16 40 (5 :: 160 word),
                     rto_Coins = encodeWord 10 19 (1000000 :: 64 word), rto_Hours = 0\<rparr>]\<rparr>"
  by (simp add: NewReadableTransaction_def Transaction_TxIDHex_def pendingTxn_def genesisTxn_def
        NewReadableTransactionOutput_def exampleCollaborators_sel)

lemma example_genesis_readable:
  "NewReadableTransaction exampleCollaborators genesisTxn = Inr genesisReadable"
  unfolding example_genesis_readable_words genesisReadable_def
  by (simp add: encodeWord_def to_radix_numeral digits16_def)

lemma example_pending_readable:
  "NewReadableTransaction exampleCollaborators pendingTxn = Inr pendingReadable"
  unfolding example_pending_readable_words pendingReadable_def
  by (simp add: encodeWord_def to_radix_numeral digits16_def)

text \<open>
  C2 as stated fails. The genesis-like transaction \<open>genesisTxn\<close> is confirmed with block
  sequence 0 and its content hash is not zero; the transaction id reported for it is the hex
  form of that content hash, not the hex form of the all-zero hash.
\<close>

theorem genesis_txid_counterexample:
  "Confirmed (Status genesisTxn) \<and> BlockSeq (Status genesisTxn) = 0
   \<and> map_sum id rt_Hash (NewReadableTransaction exampleCollaborators genesisTxn) =
        Inr ''00000000000000000000000000000000000000000000000000000000000000e1''
   \<and> map_sum id rt_Hash (NewReadableTransaction exampleCollaborators genesisTxn) \<noteq>
        Inr (SHA256_Hex exampleCollaborators 0)
   \<and> SHA256_Hex exampleCollaborators 0 =
        ''0000000000000000000000000000000000000000000000000000000000000000''
   \<and> SHA256_Hex exampleCollaborators (Transaction_Hash exampleCollaborators (Txn genesisTxn)) =
        ''00000000000000000000000000000000000000000000000000000000000000e1''"
  by (simp add: example_genesis_txid example_genesis_hash example_hex_225 example_hex_0
        exampleCollaborators_sel(5))
     (simp add: genesisTxn_def)

lemma NewReadableTransaction_outs_succeeds:
  "\<forall>t\<in>set ts. \<exists>s. droplet_ToString c (to_Coins t) = Inr s \<Longrightarrow>
     \<exists>out'. NewReadableTransaction_outs c txid out ts = Inr out'"
  by (induction ts arbitrary: out) (auto simp: NewReadableTransactionOutput_def)

text \<open>
  C2, amended. For a transaction whose status is confirmed with block sequence 0 the
  transaction id that \<open>NewReadableTransaction\<close> reports is the transaction's real content
  hash, not the all-zero hash; the all-zero hash is used, whatever the content hash is, as
  the transaction id from which the identifier of every output is derived. For a
  transaction with block sequence 0 and a status that is not confirmed it reports the
  transaction's real content hash, and derives the output identifiers from it. In both
  cases it returns a readable transaction when the coins of every output can be encoded.
\<close>

theorem NewReadableTransaction_genesis_output_ids:
  assumes "BlockSeq (Status t) = 0"
  shows "(\<forall>r. NewReadableTransaction c t = Inr r \<longrightarrow>
            rt_Hash r = SHA256_Hex c (Transaction_Hash c (Txn t))
            \<and> (Confirmed (Status t) \<longrightarrow>
                 map rto_Hash (rt_Out r) =
                   map (\<lambda>out. SHA256_Hex c (TransactionOutput_UxID c out 0)) (tx_Out (Txn t)))
            \<and> (\<not> Confirmed (Status t) \<longrightarrow>
                 map rto_Hash (rt_Out r) =
                   map (\<lambda>out. SHA256_Hex c
                                (TransactionOutput_UxID c out (Transaction_Hash c (Txn t))))
                     (tx_Out (Txn t))))
         \<and> ((\<forall>out\<in>set (tx_Out (Txn t)). \<exists>s. droplet_ToString c (to_Coins out) = Inr s)
              \<longrightarrow> (\<exists>r. NewReadableTransaction c t = Inr r))"
proof (intro conjI allI impI)
  fix r
  assume r: "NewReadableTransaction c t = Inr r"
  show "rt_Hash r = SHA256_Hex c (Transaction_Hash c (Txn t))"
    using assms r
    by (auto simp: NewReadableTransaction_def Transaction_TxIDHex_def Let_def
             split: sum.splits if_splits)
  show "map rto_Hash (rt_Out r) =
          map (\<lambda>out. SHA256_Hex c (TransactionOutput_UxID c out 0)) (tx_Out (Txn t))"
    if "Confirmed (Status t)"
    using assms r that
    by (auto simp: NewReadableTransaction_def Let_def split: sum.splits if_splits
             dest!: NewReadableTransaction_outs_hashes)
  show "map rto_Hash (rt_Out r) =
          map (\<lambda>out. SHA256_Hex c (TransactionOutput_UxID c out (Transaction_Hash c (Txn t))))
            (tx_Out (Txn t))"
    if "\<not> Confirmed (Status t)"
    using assms r that
    by (auto simp: NewReadableTransaction_def Let_def split: sum.splits if_splits
             dest!: NewReadableTransaction_outs_hashes)
next
  assume enc: "\<forall>out\<in>set (tx_Out (Txn t)). \<exists>s. droplet_ToString c (to_Coins out) = Inr s"
  obtain outs where
    "NewReadableTransaction_outs c
       (if BlockSeq (Status t) \<noteq> 0 \<or> \<not> Confirmed (Status t)
        then Transaction_Hash c (Txn t) else 0) [] (tx_Out (Txn t)) = Inr outs"
    using NewReadableTransaction_outs_succeeds [OF enc] by blast
  then show "\<exists>r. NewReadableTransaction c t = Inr r"
    using assms by (simp add: NewReadableTransaction_def Let_def)
qed

theorem NewReadableTransaction_genesis_output_ids_witness:
  "BlockSeq (Status genesisTxn) = 0 \<and> Confirmed (Status genesisTxn)
   \<and> NewReadableTransaction exampleCollaborators genesisTxn = Inr genesisReadable
   \<and> rt_Hash genesisReadable =
       SHA256_Hex exampleCollaborators (Transaction_Hash exampleCollaborators (Txn genesisTxn))
   \<and> map rto_Hash (rt_Out genesisReadable) =
       map (\<lambda>out. SHA256_Hex exampleCollaborators
                    (TransactionOutput_UxID exampleCollaborators out 0))
         (tx_Out (Txn genesisTxn))
   \<and> BlockSeq (Status pendingTxn) = 0 \<and> \<not> Confirmed (Status pendingTxn)
   \<and> NewReadableTransaction exampleCollaborators pendingTxn = Inr pendingReadable
   \<and> rt_Hash pendingReadable =
       SHA256_Hex exampleCollaborators (Transaction_Hash exampleCollaborators (Txn pendingTxn))
   \<and> map rto_Hash (rt_Out pendingReadable) =
       map (\<lambda>out. SHA256_Hex exampleCollaborators
                    (TransactionOutput_UxID exampleCollaborators out
                       (Transaction_Hash exampleCollaborators (Txn pendingTxn))))
         (tx_Out (Txn pendingTxn))"
proof -
  have g: "BlockSeq (Status genesisTxn) = 0" "Confirmed (Status genesisTxn)"
    by (simp_all add: genesisTxn_def)
  have p: "BlockSeq (Status pendingTxn) = 0" "\<not> Confirmed (Status pendingTxn)"
    by (simp_all add: pendingTxn_def)
  show ?thesis
    using NewReadableTransaction_genesis_output_ids [OF g(1), of exampleCollaborators]
      NewReadableTransaction_genesis_output_ids [OF p(1), of exampleCollaborators]
      g p example_genesis_readable example_pending_readable
    by blast
qed

subsection \<open>Balance\<close>

lemma coin_AddUint64_Inr:
  "coin_AddUint64 a b = Inr s \<longleftrightarrow> unat a + unat b < 2 ^ 64 \<and> s = a + b"
  by (auto simp: coin_AddUint64_def)

lemma coin_AddUint64_Inl:
  "coin_AddUint64 a b = Inl e \<longleftrightarrow> 2 ^ 64 \<le> unat a + unat b \<and> e = ErrUint64AddOverflow"
  by (auto simp: coin_AddUint64_def)

lemma unat_add_no_overflow:
  fixes a b :: uint64
  shows "unat a + unat b < 2 ^ 64 \<Longrightarrow> unat (a + b) = unat a + unat b"
  using unat_add_lem [of a b] by simp

lemma Balance_loop_append:
  "Balance_loop c bal (xs @ ys) =
     (case Balance_loop c bal xs of Inl e \<Rightarrow> Inl e | Inr bal' \<Rightarrow> Balance_loop c bal' ys)"
  by (induction xs arbitrary: bal) (auto split: sum.splits)

lemma Balance_loop_Inr:
  "Balance_loop c bal ros = Inr bal' \<Longrightarrow>
     \<exists>cs. map (\<lambda>out. droplet_FromString c (Coins out)) ros = map Inr cs
          \<and> unat (bal_Coins bal') = unat (bal_Coins bal) + sum_list (map unat cs)
          \<and> unat (bal_Hours bal') =
              unat (bal_Hours bal) + sum_list (map (\<lambda>out. unat (CalculatedHours out)) ros)"
proof (induction ros arbitrary: bal)
  case Nil
  then show ?case by simp
next
  case (Cons out ros)
  from Cons.prems obtain coins sumCoins sumHours where
    d: "droplet_FromString c (Coins out) = Inr coins"
    and sc: "coin_AddUint64 (bal_Coins bal) coins = Inr sumCoins"
    and sh: "coin_AddUint64 (bal_Hours bal) (CalculatedHours out) = Inr sumHours"
    and rest: "Balance_loop c \<lparr>bal_Coins = sumCoins, bal_Hours = sumHours\<rparr> ros = Inr bal'"
    by (auto split: sum.splits)
  from Cons.IH [OF rest] obtain cs where
    cs: "map (\<lambda>out. droplet_FromString c (Coins out)) ros = map Inr cs"
    and c1: "unat (bal_Coins bal') = unat sumCoins + sum_list (map unat cs)"
    and c2: "unat (bal_Hours bal') =
               unat sumHours + sum_list (map (\<lambda>out. unat (CalculatedHours out)) ros)"
    by auto
  have u1: "unat sumCoins = unat (bal_Coins bal) + unat coins"
    using sc by (simp add: coin_AddUint64_Inr unat_add_no_overflow)
  have u2: "unat sumHours = unat (bal_Hours bal) + unat (CalculatedHours out)"
    using sh by (simp add: coin_AddUint64_Inr unat_add_no_overflow)
  have "map (\<lambda>out. droplet_FromString c (Coins out)) (out # ros) = map Inr (coins # cs)"
    using d cs by simp
  moreover have "unat (bal_Coins bal') = unat (bal_Coins bal) + sum_list (map unat (coins # cs))"
    using c1 u1 by simp
  moreover have "unat (bal_Hours bal') =
      unat (bal_Hours bal) + sum_list (map (\<lambda>out. unat (CalculatedHours out)) (out # ros))"
    using c2 u2 by simp
  ultimately show ?case by blast
qed

lemma Balance_loop_overflow:
  "map (\<lambda>out. droplet_FromString c (Coins out)) ros = map Inr cs \<Longrightarrow>
   2 ^ 64 \<le> unat (bal_Coins bal) + sum_list (map unat cs)
     \<or> 2 ^ 64 \<le> unat (bal_Hours bal) + sum_list (map (\<lambda>out. unat (CalculatedHours out)) ros) \<Longrightarrow>
   Balance_loop c bal ros = Inl ErrUint64AddOverflow"
proof (induction ros arbitrary: bal cs)
  case Nil
  then show ?case using unsigned_less [of "bal_Coins bal", where ?'a = nat]
      unsigned_less [of "bal_Hours bal", where ?'a = nat] by auto
next
  case (Cons out ros)
  from Cons.prems(1) obtain coins cs' where
    cs: "cs = coins # cs'"
    and d: "droplet_FromString c (Coins out) = Inr coins"
    and rest: "map (\<lambda>out. droplet_FromString c (Coins out)) ros = map Inr cs'"
    by (cases cs) auto
  show ?case
  proof (cases "unat (bal_Coins bal) + unat coins < 2 ^ 64
                \<and> unat (bal_Hours bal) + unat (CalculatedHours out) < 2 ^ 64")
    case False
    then show ?thesis using d by (auto simp: coin_AddUint64_def)
  next
    case True
    let ?bal = "\<lparr>bal_Coins = bal_Coins bal + coins,
                 bal_Hours = bal_Hours bal + CalculatedHours out\<rparr>"
    have "2 ^ 64 \<le> unat (bal_Coins ?bal) + sum_list (map unat cs')
          \<or> 2 ^ 64 \<le> unat (bal_Hours ?bal)
                + sum_list (map (\<lambda>out. unat (CalculatedHours out)) ros)"
      using Cons.prems(2) True cs by (simp add: unat_add_no_overflow add.assoc)
    from Cons.IH [OF rest this] show ?thesis
      using d True by (simp add: coin_AddUint64_def)
  qed
qed

lemma Balance_loop_fits:
  "map (\<lambda>out. droplet_FromString c (Coins out)) ros = map Inr cs \<Longrightarrow>
   unat (bal_Coins bal) + sum_list (map unat cs) < 2 ^ 64 \<Longrightarrow>
   unat (bal_Hours bal) + sum_list (map (\<lambda>out. unat (CalculatedHours out)) ros) < 2 ^ 64 \<Longrightarrow>
   \<exists>bal'. Balance_loop c bal ros = Inr bal'"
proof (induction ros arbitrary: bal cs)
  case Nil
  then show ?case by simp
next
  case (Cons out ros)
  from Cons.prems(1) obtain coins cs' where
    cs: "cs = coins # cs'"
    and d: "droplet_FromString c (Coins out) = Inr coins"
    and rest: "map (\<lambda>out. droplet_FromString c (Coins out)) ros = map Inr cs'"
    by (cases cs) auto
  let ?bal = "\<lparr>bal_Coins = bal_Coins bal + coins,
               bal_Hours = bal_Hours bal + CalculatedHours out\<rparr>"
  have f1: "unat (bal_Coins bal) + unat coins < 2 ^ 64"
    using Cons.prems(2) cs by simp
  have f2: "unat (bal_Hours bal) + unat (CalculatedHours out) < 2 ^ 64"
    using Cons.prems(3) by simp
  have "unat (bal_Coins ?bal) + sum_list (map unat cs') < 2 ^ 64"
    using Cons.prems(2) cs f1 by (simp add: unat_add_no_overflow add.assoc)
  moreover have "unat (bal_Hours ?bal)
      + sum_list (map (\<lambda>out. unat (CalculatedHours out)) ros) < 2 ^ 64"
    using Cons.prems(3) f2 by (simp add: unat_add_no_overflow add.assoc)
  ultimately have "\<exists>bal'. Balance_loop c ?bal ros = Inr bal'"
    by (rule Cons.IH [OF rest])
  then show ?case using d f1 f2 by (simp add: coin_AddUint64_def)
qed

lemma example_decode_overflowOutputs:
  "map (\<lambda>out. droplet_FromString exampleCollaborators (Coins out)) (take 2 overflowOutputs)
     = map Inr [1000000, 1000000]"
  by (simp add: overflowOutputs_def balanceOutput_def mkOutput_def exampleCollaborators_sel
        decodeWord_def digits16_def)

lemma example_hours_overflowOutputs:
  "2 ^ 64 \<le> sum_list (map (\<lambda>out. unat (CalculatedHours out)) (take 2 overflowOutputs))"
  by (simp add: overflowOutputs_def balanceOutput_def mkOutput_def)

lemma example_decode_smallOutputs:
  "map (\<lambda>out. droplet_FromString exampleCollaborators (Coins out)) smallOutputs
     = map Inr [1000000, 2000000]"
  by (simp add: smallOutputs_def balanceOutput_def mkOutput_def exampleCollaborators_sel
        decodeWord_def digits16_def)

lemma example_sums_smallOutputs:
  "sum_list (map unat [1000000, 2000000 :: uint64]) < 2 ^ 64"
  "sum_list (map (\<lambda>out. unat (CalculatedHours out)) smallOutputs) < 2 ^ 64"
  by (simp_all add: smallOutputs_def balanceOutput_def mkOutput_def)

lemma example_Balance_smallOutputs:
  "Balance exampleCollaborators smallOutputs = Inr \<lparr>bal_Coins = 3000000, bal_Hours = 30\<rparr>"
  by (simp add: Balance_def smallOutputs_def balanceOutput_def mkOutput_def
        exampleCollaborators_sel decodeWord_def digits16_def coin_AddUint64_def)

text \<open>
  C5. \<open>Balance\<close> never returns a wrapped-around total. If the amounts of some first
  outputs of the collection decode and their coins or their calculated hours add up to
  \<open>2 ^ 64\<close> or more, \<open>Balance\<close> returns the overflow error. Whenever it returns a balance,
  every amount decoded and the balance holds the exact sums of the decoded coins and of the
  calculated hours; and it does return a balance when every amount decodes and both sums
  fit in 64 bits.
\<close>

theorem Balance_overflow_checked:
  "(\<forall>n cs. map (\<lambda>out. droplet_FromString c (Coins out)) (take n ros) = map Inr cs
        \<and> (2 ^ 64 \<le> sum_list (map unat cs)
            \<or> 2 ^ 64 \<le> sum_list (map (\<lambda>out. unat (CalculatedHours out)) (take n ros)))
      \<longrightarrow> Balance c ros = Inl ErrUint64AddOverflow)
   \<and> (\<forall>bal. Balance c ros = Inr bal \<longrightarrow>
        (\<exists>cs. map (\<lambda>out. droplet_FromString c (Coins out)) ros = map Inr cs
           \<and> unat (bal_Coins bal) = sum_list (map unat cs)
           \<and> unat (bal_Hours bal) = sum_list (map (\<lambda>out. unat (CalculatedHours out)) ros)))
   \<and> (\<forall>cs. map (\<lambda>out. droplet_FromString c (Coins out)) ros = map Inr cs
        \<and> sum_list (map unat cs) < 2 ^ 64
        \<and> sum_list (map (\<lambda>out. unat (CalculatedHours out)) ros) < 2 ^ 64
      \<longrightarrow> (\<exists>bal. Balance c ros = Inr bal))"
proof (intro conjI allI impI)
  fix n cs
  assume a: "map (\<lambda>out. droplet_FromString c (Coins out)) (take n ros) = map Inr cs
        \<and> (2 ^ 64 \<le> sum_list (map unat cs)
            \<or> 2 ^ 64 \<le> sum_list (map (\<lambda>out. unat (CalculatedHours out)) (take n ros)))"
  have "Balance_loop c \<lparr>bal_Coins = 0, bal_Hours = 0\<rparr> (take n ros) = Inl ErrUint64AddOverflow"
    using a by (intro Balance_loop_overflow [where cs = cs]) auto
  then have "Balance_loop c \<lparr>bal_Coins = 0, bal_Hours = 0\<rparr> (take n ros @ drop n ros)
               = Inl ErrUint64AddOverflow"
    by (simp only: Balance_loop_append sum.case)
  then show "Balance c ros = Inl ErrUint64AddOverflow"
    by (simp add: Balance_def)
next
  fix bal
  assume "Balance c ros = Inr bal"
  then show "\<exists>cs. map (\<lambda>out. droplet_FromString c (Coins out)) ros = map Inr cs
           \<and> unat (bal_Coins bal) = sum_list (map unat cs)
           \<and> unat (bal_Hours bal) = sum_list (map (\<lambda>out. unat (CalculatedHours out)) ros)"
    using Balance_loop_Inr [of c "\<lparr>bal_Coins = 0, bal_Hours = 0\<rparr>" ros bal]
    by (simp add: Balance_def)
next
  fix cs
  assume "map (\<lambda>out. droplet_FromString c (Coins out)) ros = map Inr cs
        \<and> sum_list (map unat cs) < 2 ^ 64
        \<and> sum_list (map (\<lambda>out. unat (CalculatedHours out)) ros) < 2 ^ 64"
  then show "\<exists>bal. Balance c ros = Inr bal"
    using Balance_loop_fits [of c ros cs "\<lparr>bal_Coins = 0, bal_Hours = 0\<rparr>"]
    by (simp add: Balance_def)
qed

theorem Balance_overflow_checked_witness:
  "map (\<lambda>out. droplet_FromString exampleCollaborators (Coins out)) (take 2 overflowOutputs)
     = map Inr [1000000, 1000000]
   \<and> 2 ^ 64 \<le> sum_list (map (\<lambda>out. unat (CalculatedHours out)) (take 2 overflowOutputs))
   \<and> Balance exampleCollaborators overflowOutputs = Inl ErrUint64AddOverflow
   \<and> map (\<lambda>out. droplet_FromString exampleCollaborators (Coins out)) smallOutputs
       = map Inr [1000000, 2000000]
   \<and> Balance exampleCollaborators smallOutputs = Inr \<lparr>bal_Coins = 3000000, bal_Hours = 30\<rparr>
   \<and> unat (bal_Coins \<lparr>bal_Coins = 3000000, bal_Hours = 30\<rparr>)
       = sum_list (map unat [1000000, 2000000 :: uint64])
   \<and> unat (bal_Hours \<lparr>bal_Coins = 3000000, bal_Hours = 30\<rparr>)
       = sum_list (map (\<lambda>out. unat (CalculatedHours out)) smallOutputs)"
proof -
  have over: "Balance exampleCollaborators overflowOutputs = Inl ErrUint64AddOverflow"
    using Balance_overflow_checked [of exampleCollaborators overflowOutputs]
      example_decode_overflowOutputs example_hours_overflowOutputs
    by blast
  obtain cs where
    cs: "map (\<lambda>out. droplet_FromString exampleCollaborators (Coins out)) smallOutputs = map Inr cs"
    and s1: "unat (bal_Coins \<lparr>bal_Coins = 3000000, bal_Hours = 30\<rparr>) = sum_list (map unat cs)"
    and s2: "unat (bal_Hours \<lparr>bal_Coins = 3000000, bal_Hours = 30\<rparr>)
               = sum_list (map (\<lambda>out. unat (CalculatedHours out)) smallOutputs)"
    using Balance_overflow_checked [of exampleCollaborators smallOutputs]
      example_Balance_smallOutputs
    by blast
  have "cs = [1000000, 2000000]"
    using cs example_decode_smallOutputs by (auto simp: Cons_eq_map_conv)
  then show ?thesis
    using over s1 s2 example_decode_overflowOutputs example_hours_overflowOutputs
      example_decode_smallOutputs example_Balance_smallOutputs
    by simp
qed


subsection \<open>Reverse conversion\<close>












subsection \<open>The order of the readable outputs\<close>
























end
